theory Spec2Isabelle
  imports Main "HOL-Library.Word" "HOL-Library.Signed_Division"
begin

section \<open>Go values\<close>

text \<open>
  A Go \<^verbatim>\<open>int\<close> is a 64-bit two's complement integer on the platforms the client is
  built for: \<open>+\<close> and \<open>*\<close> wrap around, comparisons are signed (\<open><s\<close>), and \<^verbatim>\<open>/\<close>
  truncates towards zero. A Go \<^verbatim>\<open>string\<close> is a sequence of bytes, as a HOL \<open>string\<close> is.
\<close>

type_synonym go_int = "64 word"

definition go_div :: "go_int \<Rightarrow> go_int \<Rightarrow> go_int" where
  "go_div a b = word_of_int (sint a sdiv sint b)"

definition go_len :: "'a list \<Rightarrow> go_int" where
  "go_len xs = word_of_nat (length xs)"

section \<open>Heart-rate summary\<close>

text \<open>
  \<^verbatim>\<open>type HeartRateRecord struct { Timestamp string; BPM int; Source string }\<close>
\<close>

record HeartRateRecord =
  Timestamp :: string
  BPM :: go_int
  Source :: string

text \<open>
  The three accumulators of the loop in \<^verbatim>\<open>fetchHeartRate\<close>:
  \<^verbatim>\<open>var min, max, sum int; min = 999\<close>.
\<close>

record hr_stats =
  hr_min :: go_int
  hr_max :: go_int
  hr_sum :: go_int

definition hr_init :: hr_stats where
  "hr_init = \<lparr>hr_min = 999, hr_max = 0, hr_sum = 0\<rparr>"

text \<open>
  \<^verbatim>\<open>
  for _, hr := range data.Data {
      if hr.BPM < min { min = hr.BPM }
      if hr.BPM > max { max = hr.BPM }
      sum += hr.BPM
  }
  \<close>
\<close>

fun hr_loop :: "HeartRateRecord list \<Rightarrow> hr_stats \<Rightarrow> hr_stats" where
  "hr_loop [] s = s"
| "hr_loop (hr # rest) s = hr_loop rest
     \<lparr> hr_min = (if BPM hr <s hr_min s then BPM hr else hr_min s),
       hr_max = (if hr_max s <s BPM hr then BPM hr else hr_max s),
       hr_sum = hr_sum s + BPM hr \<rparr>"

text \<open>\<^verbatim>\<open>avg := sum / len(data.Data)\<close>, reached only when the list is not empty.\<close>

definition hr_avg :: "HeartRateRecord list \<Rightarrow> go_int" where
  "hr_avg xs = go_div (hr_sum (hr_loop xs hr_init)) (go_len xs)"

section \<open>Text of numbers\<close>

text \<open>\<^verbatim>\<open>%d\<close> of \<^verbatim>\<open>fmt\<close>: the decimal digits, with a minus sign for a negative number.\<close>

definition digit_char :: "nat \<Rightarrow> char" where
  "digit_char d = ''0123456789'' ! d"

fun digits :: "nat \<Rightarrow> string" where
  "digits n = (if n < 10 then [digit_char n] else digits (n div 10) @ [digit_char (n mod 10)])"

declare digits.simps [simp del]

definition itoa :: "int \<Rightarrow> string" where
  "itoa i = (if i < 0 then CHR ''-'' # digits (nat (- i)) else digits (nat i))"

section \<open>The world outside the process\<close>

text \<open>
  An \<^verbatim>\<open>error\<close> is modelled by its message. A \<^verbatim>\<open>time.Time\<close> is the instant it denotes, in
  nanoseconds since the Unix epoch; a \<^verbatim>\<open>time.Duration\<close> is a 64-bit count of nanoseconds.
\<close>

type_synonym go_error = string
type_synonym Time = int
type_synonym Duration = go_int

definition Second :: Duration where
  "Second = 1000000000"

definition Minute :: Duration where
  "Minute = 60 * Second"

definition Time_Add :: "Time \<Rightarrow> Duration \<Rightarrow> Time" where
  "Time_Add t d = t + sint d"

definition Time_After :: "Time \<Rightarrow> Time \<Rightarrow> bool" where
  "Time_After t u = (u < t)"

text \<open>
  \<^verbatim>\<open>url.Values\<close>, with \<^verbatim>\<open>Set\<close> (replace the value of a key) and \<^verbatim>\<open>Get\<close> (the value of a key,
  the empty string when the key is absent).
\<close>

type_synonym Values = "(string \<times> string) list"

fun Values_Set :: "string \<Rightarrow> string \<Rightarrow> Values \<Rightarrow> Values" where
  "Values_Set k v [] = [(k, v)]"
| "Values_Set k v ((k', v') # m) = (if k' = k then (k, v) # m else (k', v') # Values_Set k v m)"

definition Values_Get :: "Values \<Rightarrow> string \<Rightarrow> string" where
  "Values_Get m k = (case map_of m k of None \<Rightarrow> [] | Some v \<Rightarrow> v)"

text \<open>
  An HTTP request the client sends: a form posted to a URL, or a GET of a URL with query
  parameters and an \<^verbatim>\<open>Authorization\<close> header. A response carries its status code and what
  \<^verbatim>\<open>io.ReadAll\<close> gets from its body: the bytes read and the read error, if any.
\<close>

datatype request =
  PostForm string Values
| Get string Values string

record response =
  StatusCode :: int
  Body :: string
  BodyErr :: "go_error option"

definition redirectURI :: string where
  "redirectURI = ''http://localhost:8081/callback''"

definition authURL :: string where
  "authURL = ''https://cloud.ouraring.com/oauth/authorize''"

definition tokenURL :: string where
  "tokenURL = ''https://api.ouraring.com/oauth/token''"

definition apiBase :: string where
  "apiBase = ''https://api.ouraring.com/v2/usercollection''"

record Config =
  ClientID :: string
  ClientSecret :: string

record TokenResponse =
  resp_AccessToken :: string
  resp_RefreshToken :: string
  resp_ExpiresIn :: go_int
  resp_TokenType :: string

record StoredToken =
  AccessToken :: string
  RefreshToken :: string
  ExpiresAt :: Time

text \<open>
  The state of the world a command runs in and changes:
  \<^item> \<open>config_path\<close> and \<open>config_file\<close>: the path of \<^verbatim>\<open>config.json\<close> and what
    \<^verbatim>\<open>os.ReadFile\<close> returns for it;
  \<^item> \<open>token_file\<close>: what \<^verbatim>\<open>os.ReadFile(getTokenPath())\<close> returns, the bytes of
    \<^verbatim>\<open>token.json\<close> or the error;
  \<^item> \<open>write_fault\<close>: \<open>None\<close> when \<^verbatim>\<open>os.WriteFile\<close> on the token file succeeds, otherwise
    the error it returns and what the file holds afterwards;
  \<^item> \<open>writes\<close>: the data of every \<^verbatim>\<open>os.WriteFile\<close> call on the token file, in order;
  \<^item> \<open>clock\<close> and \<open>ticks\<close>: the reading of the \<open>n\<close>-th call of \<^verbatim>\<open>time.Now()\<close>, and the
    number of calls so far;
  \<^item> \<open>net\<close> and \<open>sent\<close>: what the network answers to the \<open>n\<close>-th request, a transport error
    or a response, and the requests sent so far;
  \<^item> \<open>opened\<close>: the URLs handed to the system's browser launcher;
  \<^item> \<open>port_served\<close> and \<open>answered\<close>: whether the callback server of the auth command
    accepts requests on port 8081, and the responses its handlers have written;
  \<^item> \<open>stdout\<close> and \<open>stderr\<close>: the texts written to the two streams, in order.
  \<^verbatim>\<open>getConfigDir\<close> also creates the directory of the two files when it is missing; the
  directory is not part of this state.
\<close>

record world =
  config_path :: string
  config_file :: "go_error + string"
  token_file :: "go_error + string"
  write_fault :: "(go_error \<times> (go_error + string)) option"
  writes :: "string list"
  clock :: "nat \<Rightarrow> Time"
  ticks :: nat
  net :: "nat \<Rightarrow> request \<Rightarrow> go_error + response"
  sent :: "request list"
  opened :: "string list"
  port_served :: bool
  answered :: "(int \<times> string) list"
  stdout :: "string list"
  stderr :: "string list"

definition time_Now :: "world \<Rightarrow> Time \<times> world" where
  "time_Now w = (clock w (ticks w), w\<lparr>ticks := Suc (ticks w)\<rparr>)"

definition http_send :: "request \<Rightarrow> world \<Rightarrow> (go_error + response) \<times> world" where
  "http_send req w = (net w (length (sent w)) req, w\<lparr>sent := sent w @ [req]\<rparr>)"

definition WriteFile_token :: "string \<Rightarrow> world \<Rightarrow> go_error option \<times> world" where
  "WriteFile_token data w =
     (case write_fault w of
        None \<Rightarrow> (None, w\<lparr>token_file := Inr data, writes := writes w @ [data]\<rparr>)
      | Some (err, residue) \<Rightarrow>
          (Some err, w\<lparr>token_file := residue, writes := writes w @ [data]\<rparr>))"

definition print_out :: "string \<Rightarrow> world \<Rightarrow> world" where
  "print_out s w = w\<lparr>stdout := stdout w @ [s]\<rparr>"

definition print_err :: "string \<Rightarrow> world \<Rightarrow> world" where
  "print_err s w = w\<lparr>stderr := stderr w @ [s]\<rparr>"

section \<open>The JSON library, as far as the token manager uses it\<close>

text \<open>
  \<^verbatim>\<open>encoding/json\<close> is not part of the repository; the functions the token manager calls
  are parameters of the model:
  \<^item> \<open>marshal_StoredToken\<close>: \<^verbatim>\<open>json.MarshalIndent(token, "", "  ")\<close>;
  \<^item> \<open>unmarshal_StoredToken\<close>: \<^verbatim>\<open>json.Unmarshal(data, &token)\<close> into a zero \<^verbatim>\<open>StoredToken\<close>;
  \<^item> \<open>decode_TokenResponse\<close>: \<^verbatim>\<open>json.NewDecoder(resp.Body).Decode(&tokenResp)\<close>;
  \<^item> \<open>unmarshal_Config\<close>: \<^verbatim>\<open>json.Unmarshal(data, &config)\<close>.
\<close>

record codec =
  marshal_StoredToken :: "StoredToken \<Rightarrow> go_error + string"
  unmarshal_StoredToken :: "string \<Rightarrow> go_error + StoredToken"
  decode_TokenResponse :: "response \<Rightarrow> go_error + TokenResponse"
  unmarshal_Config :: "string \<Rightarrow> go_error + Config"

section \<open>Token manager\<close>

text \<open>
  \<^verbatim>\<open>
  func saveToken(token *StoredToken) error {
      data, err := json.MarshalIndent(token, "", "  ")
      if err != nil { return err }
      return os.WriteFile(getTokenPath(), data, 0600)
  }
  \<close>
\<close>

definition saveToken :: "codec \<Rightarrow> StoredToken \<Rightarrow> world \<Rightarrow> go_error option \<times> world" where
  "saveToken J token w =
     (case marshal_StoredToken J token of
        Inl err \<Rightarrow> (Some err, w)
      | Inr data \<Rightarrow> WriteFile_token data w)"

text \<open>
  \<^verbatim>\<open>
  func loadToken() (*StoredToken, error) {
      data, err := os.ReadFile(getTokenPath())
      if err != nil { return nil, err }
      var token StoredToken
      if err := json.Unmarshal(data, &token); err != nil { return nil, err }
      return &token, nil
  }
  \<close>
\<close>

definition loadToken :: "codec \<Rightarrow> world \<Rightarrow> go_error + StoredToken" where
  "loadToken J w =
     (case token_file w of
        Inl err \<Rightarrow> Inl err
      | Inr data \<Rightarrow> unmarshal_StoredToken J data)"

text \<open>The form \<^verbatim>\<open>refreshToken\<close> posts.\<close>

definition refresh_form :: "Config \<Rightarrow> string \<Rightarrow> Values" where
  "refresh_form cfg refresh =
     Values_Set ''client_secret'' (ClientSecret cfg)
       (Values_Set ''client_id'' (ClientID cfg)
         (Values_Set ''refresh_token'' refresh
           (Values_Set ''grant_type'' ''refresh_token'' [])))"

text \<open>
  \<^verbatim>\<open>
  func refreshToken(refresh string) (*StoredToken, error) {
      ...
      resp, err := http.PostForm(tokenURL, data)
      if err != nil { return nil, err }
      defer resp.Body.Close()
      if resp.StatusCode != 200 {
          body, _ := io.ReadAll(resp.Body)
          return nil, fmt.Errorf("token refresh failed: %s", body)
      }
      var tokenResp TokenResponse
      if err := json.NewDecoder(resp.Body).Decode(&tokenResp); err != nil { return nil, err }
      stored := &StoredToken{
          AccessToken:  tokenResp.AccessToken,
          RefreshToken: tokenResp.RefreshToken,
          ExpiresAt:    time.Now().Add(time.Duration(tokenResp.ExpiresIn) * time.Second),
      }
      if err := saveToken(stored); err != nil { return nil, err }
      return stored, nil
  }
  \<close>
\<close>

definition new_token :: "TokenResponse \<Rightarrow> Time \<Rightarrow> StoredToken" where
  "new_token tokenResp now =
     \<lparr>AccessToken = resp_AccessToken tokenResp,
      RefreshToken = resp_RefreshToken tokenResp,
      ExpiresAt = Time_Add now (resp_ExpiresIn tokenResp * Second)\<rparr>"

definition refreshToken ::
  "codec \<Rightarrow> Config \<Rightarrow> string \<Rightarrow> world \<Rightarrow> (go_error + StoredToken) \<times> world" where
  "refreshToken J cfg refresh w =
     (case http_send (PostForm tokenURL (refresh_form cfg refresh)) w of
        (Inl err, w1) \<Rightarrow> (Inl err, w1)
      | (Inr resp, w1) \<Rightarrow>
          if StatusCode resp \<noteq> 200 then (Inl (''token refresh failed: '' @ Body resp), w1)
          else
            (case decode_TokenResponse J resp of
               Inl err \<Rightarrow> (Inl err, w1)
             | Inr tokenResp \<Rightarrow>
                 (case time_Now w1 of
                    (now, w2) \<Rightarrow>
                      (case saveToken J (new_token tokenResp now) w2 of
                         (Some err, w3) \<Rightarrow> (Inl err, w3)
                       | (None, w3) \<Rightarrow> (Inr (new_token tokenResp now), w3)))))"

text \<open>
  \<^verbatim>\<open>
  func getValidToken() (string, error) {
      token, err := loadToken()
      if err != nil {
          return "", fmt.Errorf("not authenticated - run 'oura auth' first")
      }
      if time.Now().Add(5 * time.Minute).After(token.ExpiresAt) {
          newToken, err := refreshToken(token.RefreshToken)
          if err != nil {
              return "", fmt.Errorf("token refresh failed - run 'oura auth' again: %v", err)
          }
          token = newToken
      }
      return token.AccessToken, nil
  }
  \<close>
\<close>

definition getValidToken :: "codec \<Rightarrow> Config \<Rightarrow> world \<Rightarrow> (go_error + string) \<times> world" where
  "getValidToken J cfg w =
     (case loadToken J w of
        Inl err \<Rightarrow> (Inl ''not authenticated - run 'oura auth' first'', w)
      | Inr token \<Rightarrow>
          (case time_Now w of
             (now, w1) \<Rightarrow>
               if Time_After (Time_Add now (5 * Minute)) (ExpiresAt token) then
                 (case refreshToken J cfg (RefreshToken token) w1 of
                    (Inl err, w2) \<Rightarrow>
                      (Inl (''token refresh failed - run 'oura auth' again: '' @ err), w2)
                  | (Inr newToken, w2) \<Rightarrow> (Inr (AccessToken newToken), w2))
               else (Inr (AccessToken token), w1)))"

section \<open>An example world\<close>

definition ex_token_text :: string where
  \<open>ex_token_text =
     ''{"access_token": "AT1", "refresh_token": "RT1", "expires_at": "2026-01-10T12:05:00Z"}''\<close>

definition ex_token :: StoredToken where
  "ex_token = \<lparr>AccessToken = ''AT1'', RefreshToken = ''RT1'', ExpiresAt = 1768046700000000000\<rparr>"

definition ex_refreshed_text :: string where
  \<open>ex_refreshed_text =
     ''{"access_token": "AT2", "refresh_token": "RT2", "expires_at": "2026-01-11T12:00:01Z"}''\<close>

definition ex_refreshed :: StoredToken where
  "ex_refreshed = \<lparr>AccessToken = ''AT2'', RefreshToken = ''RT2'', ExpiresAt = 1768132801000000000\<rparr>"

definition ex_grant_text :: string where
  \<open>ex_grant_text =
     ''{"access_token":"AT2","refresh_token":"RT2","expires_in":86400,"token_type":"Bearer"}''\<close>

definition ex_config_text :: string where
  \<open>ex_config_text = ''{"client_id": "my-id", "client_secret": "my-secret"}''\<close>

definition ex_cfg :: Config where
  "ex_cfg = \<lparr>ClientID = ''my-id'', ClientSecret = ''my-secret''\<rparr>"

definition ex_codec :: codec where
  "ex_codec =
     \<lparr>marshal_StoredToken = (\<lambda>t. if t = ex_token then Inr ex_token_text
                                  else if t = ex_refreshed then Inr ex_refreshed_text
                                  else Inl ''json: unsupported value''),
      unmarshal_StoredToken = (\<lambda>s. if s = ex_token_text then Inr ex_token
                                    else if s = ex_refreshed_text then Inr ex_refreshed
                                    else Inl ''unexpected end of JSON input''),
      decode_TokenResponse = (\<lambda>r. if Body r = ex_grant_text \<and> BodyErr r = None
                                   then Inr \<lparr>resp_AccessToken = ''AT2'', resp_RefreshToken = ''RT2'',
                                             resp_ExpiresIn = 86400, resp_TokenType = ''Bearer''\<rparr>
                                   else Inl ''unexpected end of JSON input''),
      unmarshal_Config = (\<lambda>s. if s = ex_config_text then Inr ex_cfg
                               else Inl ''unexpected end of JSON input'')\<rparr>"

text \<open>A world at 2026-01-10T12:00:00Z (each later reading of the clock is one second on)
  whose token endpoint answers 401.\<close>

definition ex_world :: world where
  "ex_world =
     \<lparr>config_path = ''/home/u/.config/oura/config.json'',
      config_file = Inr ex_config_text,
      token_file = Inr ex_token_text,
      write_fault = None,
      writes = [],
      clock = (\<lambda>n. 1768046400000000000 + 1000000000 * int n),
      ticks = 0,
      net = (\<lambda>n req. Inr \<lparr>StatusCode = 401, Body = ''{\"error\":\"invalid_grant\"}'', BodyErr = None\<rparr>),
      sent = [],
      opened = [],
      port_served = False,
      answered = [],
      stdout = [],
      stderr = []\<rparr>"

text \<open>The same world with the clock stopped at \<open>t\<close>.\<close>

definition ex_world_at :: "Time \<Rightarrow> world" where
  "ex_world_at t = ex_world\<lparr>clock := \<lambda>n. t\<rparr>"

section \<open>API client\<close>

text \<open>
  \<^verbatim>\<open>
  func apiGet(endpoint string, params url.Values) ([]byte, error) {
      token, err := getValidToken()
      if err != nil { return nil, err }
      url := apiBase + endpoint
      if len(params) > 0 { url += "?" + params.Encode() }
      req, err := http.NewRequest("GET", url, nil)
      if err != nil { return nil, err }
      req.Header.Set("Authorization", "Bearer "+token)
      resp, err := http.DefaultClient.Do(req)
      if err != nil { return nil, err }
      defer resp.Body.Close()
      body, err := io.ReadAll(resp.Body)
      if err != nil { return nil, err }
      if resp.StatusCode != 200 {
          return nil, fmt.Errorf("API error %d: %s", resp.StatusCode, body)
      }
      return body, nil
  }
  \<close>
  The request is kept in parts (URL without query, query parameters, header value).
  \<^verbatim>\<open>http.NewRequest\<close> fails only on a method or URL that does not parse, which the fixed
  method and the URLs built here are not.
\<close>

definition apiGet ::
  "codec \<Rightarrow> Config \<Rightarrow> string \<Rightarrow> Values \<Rightarrow> world \<Rightarrow> (go_error + string) \<times> world" where
  "apiGet J cfg endpoint params w =
     (case getValidToken J cfg w of
        (Inl err, w1) \<Rightarrow> (Inl err, w1)
      | (Inr token, w1) \<Rightarrow>
          (case http_send (Get (apiBase @ endpoint) params (''Bearer '' @ token)) w1 of
             (Inl err, w2) \<Rightarrow> (Inl err, w2)
           | (Inr resp, w2) \<Rightarrow>
               (case BodyErr resp of
                  Some err \<Rightarrow> (Inl err, w2)
                | None \<Rightarrow>
                    if StatusCode resp \<noteq> 200
                    then (Inl (''API error '' @ itoa (StatusCode resp) @ '': '' @ Body resp), w2)
                    else (Inr (Body resp), w2))))"

section \<open>Records of the data API\<close>

text \<open>
  The structs the response bodies are decoded into. A \<^verbatim>\<open>float64\<close> field is a value of an
  unspecified type: no function of the model computes with it. A pointer field is an
  option. Field names carry the record's name where two structs share a name.
\<close>

typedecl float64

record SleepRecord =
  sleep_Day :: string
  sleep_Type :: string
  BedtimeStart :: string
  BedtimeEnd :: string
  TotalSleepDuration :: go_int
  TimeInBed :: go_int
  sleep_Efficiency :: go_int
  DeepSleepDuration :: go_int
  LightSleepDuration :: go_int
  RemSleepDuration :: go_int
  AwakeTime :: go_int
  sleep_Latency :: go_int
  LowestHeartRate :: go_int
  AverageHeartRate :: float64
  AverageHRV :: go_int
  AverageBreath :: float64
  RestlessPeriods :: go_int

record DailySleepContributors =
  DeepSleep :: go_int
  Efficiency :: go_int
  Latency :: go_int
  RemSleep :: go_int
  Restfulness :: go_int
  Timing :: go_int
  TotalSleep :: go_int

record DailySleepRecord =
  daily_Day :: string
  daily_Score :: go_int
  daily_Contributors :: DailySleepContributors

record ReadinessContributors =
  ActivityBalance :: go_int
  BodyTemperature :: go_int
  HRVBalance :: "go_int option"
  PreviousDayActivity :: go_int
  PreviousNight :: go_int
  RecoveryIndex :: go_int
  RestingHeartRate :: go_int
  SleepBalance :: "go_int option"
  SleepRegularity :: "go_int option"

record ReadinessRecord =
  readiness_Day :: string
  readiness_Score :: go_int
  TemperatureDeviation :: float64
  TemperatureTrendDeviation :: "float64 option"
  readiness_Contributors :: ReadinessContributors

record ActivityRecord =
  activity_Day :: string
  activity_Score :: go_int
  Steps :: go_int
  ActiveCalories :: go_int
  TotalCalories :: go_int
  TargetCalories :: go_int
  EquivalentWalkingDist :: go_int
  HighActivityTime :: go_int
  MediumActivityTime :: go_int
  LowActivityTime :: go_int
  SedentaryTime :: go_int
  RestingTime :: go_int

record StressRecord =
  stress_Day :: string
  StressHigh :: go_int
  RecoveryHigh :: go_int
  DaytimeStress :: float64

record SpO2Record =
  spo2_Day :: string
  SpO2Percentage_Average :: float64
  BreathingDisturbanceIndex :: float64

record ResilienceRecord =
  resilience_Day :: string
  Level :: string
  SleepRecovery :: float64
  DaytimeRecovery :: float64

record VO2MaxRecord =
  vo2_Day :: string
  VO2Max :: float64

record WorkoutRecord =
  workout_Day :: string
  Activity :: string
  Calories :: float64
  Distance :: float64
  StartDatetime :: string
  EndDatetime :: string
  Intensity :: string
  Label :: "string option"
  workout_Source :: string

section \<open>Library functions of the report commands\<close>

text \<open>
  Parameters of the model, for what the standard library does in the report commands:
  \<^item> \<open>decode_\<dots>\<close>: the \<^verbatim>\<open>Data\<close> slice after \<^verbatim>\<open>json.Unmarshal(body, &data)\<close> into a zero
    response struct (the commands ignore the error it returns);
  \<^item> \<open>day_before\<close>, \<open>day_after\<close>:
    \<^verbatim>\<open>time.Parse("2006-01-02", date)\<close> followed by \<^verbatim>\<open>AddDate(0, 0, -1)\<close> or
    \<^verbatim>\<open>AddDate(0, 0, 1)\<close> and \<^verbatim>\<open>Format("2006-01-02")\<close>;
  \<^item> \<open>today\<close>: \<^verbatim>\<open>Format("2006-01-02")\<close> of a clock reading, in the local time zone;
  \<^item> \<open>render_\<dots>\<close>: the texts a command writes to standard output once it has found
    data, where they format floating-point numbers, times of day or padded columns;
  \<^item> \<open>marshal_bodies\<close>: \<^verbatim>\<open>string(out)\<close> for \<^verbatim>\<open>out, _ := json.MarshalIndent(result, "", "  ")\<close>
    of the map filled by the json command;
  \<^item> \<open>Encode\<close>: \<^verbatim>\<open>url.Values.Encode\<close>, the query string of the authorization URL.
\<close>

record library =
  decode_sleep :: "string \<Rightarrow> SleepRecord list"
  decode_daily_sleep :: "string \<Rightarrow> DailySleepRecord list"
  decode_readiness :: "string \<Rightarrow> ReadinessRecord list"
  decode_activity :: "string \<Rightarrow> ActivityRecord list"
  decode_heartrate :: "string \<Rightarrow> HeartRateRecord list"
  decode_stress :: "string \<Rightarrow> StressRecord list"
  decode_spo2 :: "string \<Rightarrow> SpO2Record list"
  decode_resilience :: "string \<Rightarrow> ResilienceRecord list"
  decode_vo2 :: "string \<Rightarrow> VO2MaxRecord list"
  decode_workout :: "string \<Rightarrow> WorkoutRecord list"
  day_before :: "string \<Rightarrow> string"
  day_after :: "string \<Rightarrow> string"
  today :: "Time \<Rightarrow> string"
  render_sleep :: "string \<Rightarrow> DailySleepRecord option \<Rightarrow> SleepRecord list \<Rightarrow> string list"
  render_readiness :: "ReadinessRecord \<Rightarrow> string list"
  render_activity :: "ActivityRecord \<Rightarrow> string list"
  render_spo2 :: "SpO2Record \<Rightarrow> string list"
  render_resilience :: "ResilienceRecord \<Rightarrow> string list"
  render_vo2 :: "VO2MaxRecord \<Rightarrow> string list"
  render_workouts :: "string \<Rightarrow> WorkoutRecord list \<Rightarrow> string list"
  render_header :: "string \<Rightarrow> string list"
  marshal_bodies :: "(string \<times> string) list \<Rightarrow> string"
  Encode :: "Values \<Rightarrow> string"

section \<open>Report commands\<close>

text \<open>
  A command either returns to \<^verbatim>\<open>main\<close> or ends the process with \<^verbatim>\<open>os.Exit(code)\<close>.
  \<open>Blocked\<close> is the state of the auth command while it still waits in its
  \<^verbatim>\<open>select\<close>; no other command blocks.
\<close>

datatype status = Returned | Exited int | Blocked

definition print_lines :: "string list \<Rightarrow> world \<Rightarrow> world" where
  "print_lines ls w = w\<lparr>stdout := stdout w @ ls\<rparr>"

text \<open>
  \<^verbatim>\<open>fmt.Fprintf(os.Stderr, "Error: %v\n", err); os.Exit(1)\<close>
\<close>

definition fail_with :: "go_error \<Rightarrow> world \<Rightarrow> status \<times> world" where
  "fail_with err w = (Exited 1, print_err (''Error: '' @ err @ ''\<newline>'') w)"

text \<open>\<^verbatim>\<open>fmt.Println("No ... data for", date); return\<close>\<close>

definition no_data :: "string \<Rightarrow> string \<Rightarrow> world \<Rightarrow> status \<times> world" where
  "no_data category date w =
     (Returned, print_out (''No '' @ category @ '' data for '' @ date @ ''\<newline>'') w)"

text \<open>The two ways the commands fill \<^verbatim>\<open>start_date\<close> and \<^verbatim>\<open>end_date\<close>.\<close>

definition day_params :: "string \<Rightarrow> Values" where
  "day_params date = Values_Set ''end_date'' date (Values_Set ''start_date'' date [])"

definition range_params :: "library \<Rightarrow> string \<Rightarrow> Values" where
  "range_params L date =
     Values_Set ''end_date'' (day_after L date) (Values_Set ''start_date'' (day_before L date) [])"

text \<open>\<^verbatim>\<open>strings.Repeat("\<dots>", 40)\<close> of the box-drawing character U+2500, and a line feed.\<close>

definition rule40 :: string where
  "rule40 = concat (replicate 40 [CHR 0xE2, CHR 0x94, CHR 0x80]) @ ''\<newline>''"

text \<open>
  \<^verbatim>\<open>fetchSleep\<close>: the daily score is tried first and its failure is ignored; the sleep
  periods are fetched next and their failure ends the process.
\<close>

definition fetchSleep :: "codec \<Rightarrow> library \<Rightarrow> Config \<Rightarrow> string \<Rightarrow> world \<Rightarrow> status \<times> world" where
  "fetchSleep J L cfg date w =
     (case apiGet J cfg ''/daily_sleep'' (range_params L date) w of
        (dailyRes, w1) \<Rightarrow>
          (let dailySleep =
                 (case dailyRes of
                    Inl dailyErr \<Rightarrow> None
                  | Inr dailyBody \<Rightarrow> find (\<lambda>r. daily_Day r = date) (decode_daily_sleep L dailyBody))
           in case apiGet J cfg ''/sleep'' (range_params L date) w1 of
                (Inl err, w2) \<Rightarrow> fail_with err w2
              | (Inr body, w2) \<Rightarrow>
                  (let sleepRecords = filter (\<lambda>r. sleep_Day r = date) (decode_sleep L body)
                   in if sleepRecords = [] \<and> dailySleep = None then no_data ''sleep'' date w2
                      else (Returned, print_lines (render_sleep L date dailySleep sleepRecords) w2))))"

definition fetchReadiness :: "codec \<Rightarrow> library \<Rightarrow> Config \<Rightarrow> string \<Rightarrow> world \<Rightarrow> status \<times> world" where
  "fetchReadiness J L cfg date w =
     (case apiGet J cfg ''/daily_readiness'' (range_params L date) w of
        (Inl err, w1) \<Rightarrow> fail_with err w1
      | (Inr body, w1) \<Rightarrow>
          (case find (\<lambda>r. readiness_Day r = date) (decode_readiness L body) of
             None \<Rightarrow> no_data ''readiness'' date w1
           | Some r \<Rightarrow> (Returned, print_lines (render_readiness L r) w1)))"

definition fetchActivity :: "codec \<Rightarrow> library \<Rightarrow> Config \<Rightarrow> string \<Rightarrow> world \<Rightarrow> status \<times> world" where
  "fetchActivity J L cfg date w =
     (case apiGet J cfg ''/daily_activity'' (range_params L date) w of
        (Inl err, w1) \<Rightarrow> fail_with err w1
      | (Inr body, w1) \<Rightarrow>
          (case find (\<lambda>r. activity_Day r = date) (decode_activity L body) of
             None \<Rightarrow> no_data ''activity'' date w1
           | Some a \<Rightarrow> (Returned, print_lines (render_activity L a) w1)))"

text \<open>
  \<^verbatim>\<open>fetchHeartRate\<close>, with the texts of its six print calls.
\<close>

definition heartrate_report :: "string \<Rightarrow> HeartRateRecord list \<Rightarrow> string list" where
  "heartrate_report date xs =
     [[CHR 0xE2, CHR 0x9D, CHR 0xA4, CHR 0xEF, CHR 0xB8, CHR 0x8F] @ ''  Heart Rate - '' @ date @ ''\<newline>'',
      rule40,
      ''Readings:  '' @ itoa (sint (go_len xs)) @ ''\<newline>'',
      ''Min:       '' @ itoa (sint (hr_min (hr_loop xs hr_init))) @ '' bpm\<newline>'',
      ''Max:       '' @ itoa (sint (hr_max (hr_loop xs hr_init))) @ '' bpm\<newline>'',
      ''Average:   '' @ itoa (sint (hr_avg xs)) @ '' bpm\<newline>'']"

definition fetchHeartRate :: "codec \<Rightarrow> library \<Rightarrow> Config \<Rightarrow> string \<Rightarrow> world \<Rightarrow> status \<times> world" where
  "fetchHeartRate J L cfg date w =
     (case apiGet J cfg ''/heartrate'' (day_params date) w of
        (Inl err, w1) \<Rightarrow> fail_with err w1
      | (Inr body, w1) \<Rightarrow>
          (let data = decode_heartrate L body
           in if data = [] then no_data ''heart rate'' date w1
              else (Returned, print_lines (heartrate_report date data) w1)))"

definition stress_report :: "StressRecord \<Rightarrow> string list" where
  "stress_report s =
     [[CHR 0xF0, CHR 0x9F, CHR 0x98, CHR 0xA4] @ '' Stress - '' @ stress_Day s @ ''\<newline>'',
      rule40,
      ''Stress High:     '' @ itoa (sint (StressHigh s)) @ '' min\<newline>'',
      ''Recovery High:   '' @ itoa (sint (RecoveryHigh s)) @ '' min\<newline>'']"

definition fetchStress :: "codec \<Rightarrow> library \<Rightarrow> Config \<Rightarrow> string \<Rightarrow> world \<Rightarrow> status \<times> world" where
  "fetchStress J L cfg date w =
     (case apiGet J cfg ''/daily_stress'' (day_params date) w of
        (Inl err, w1) \<Rightarrow> fail_with err w1
      | (Inr body, w1) \<Rightarrow>
          (case decode_stress L body of
             [] \<Rightarrow> no_data ''stress'' date w1
           | s # rest \<Rightarrow> (Returned, print_lines (stress_report s) w1)))"

definition fetchSpO2 :: "codec \<Rightarrow> library \<Rightarrow> Config \<Rightarrow> string \<Rightarrow> world \<Rightarrow> status \<times> world" where
  "fetchSpO2 J L cfg date w =
     (case apiGet J cfg ''/daily_spo2'' (day_params date) w of
        (Inl err, w1) \<Rightarrow> fail_with err w1
      | (Inr body, w1) \<Rightarrow>
          (case decode_spo2 L body of
             [] \<Rightarrow> no_data ''SpO2'' date w1
           | s # rest \<Rightarrow> (Returned, print_lines (render_spo2 L s) w1)))"

definition fetchResilience :: "codec \<Rightarrow> library \<Rightarrow> Config \<Rightarrow> string \<Rightarrow> world \<Rightarrow> status \<times> world" where
  "fetchResilience J L cfg date w =
     (case apiGet J cfg ''/daily_resilience'' (day_params date) w of
        (Inl err, w1) \<Rightarrow> fail_with err w1
      | (Inr body, w1) \<Rightarrow>
          (case decode_resilience L body of
             [] \<Rightarrow> no_data ''resilience'' date w1
           | r # rest \<Rightarrow> (Returned, print_lines (render_resilience L r) w1)))"

definition fetchVO2Max :: "codec \<Rightarrow> library \<Rightarrow> Config \<Rightarrow> string \<Rightarrow> world \<Rightarrow> status \<times> world" where
  "fetchVO2Max J L cfg date w =
     (case apiGet J cfg ''/vO2_max'' (day_params date) w of
        (Inl err, w1) \<Rightarrow> fail_with err w1
      | (Inr body, w1) \<Rightarrow>
          (case decode_vo2 L body of
             [] \<Rightarrow> no_data ''VO2 max'' date w1
           | v # rest \<Rightarrow> (Returned, print_lines (render_vo2 L v) w1)))"

definition fetchWorkouts :: "codec \<Rightarrow> library \<Rightarrow> Config \<Rightarrow> string \<Rightarrow> world \<Rightarrow> status \<times> world" where
  "fetchWorkouts J L cfg date w =
     (case apiGet J cfg ''/workout'' (day_params date) w of
        (Inl err, w1) \<Rightarrow> fail_with err w1
      | (Inr body, w1) \<Rightarrow>
          (let data = decode_workout L body
           in if data = [] then no_data ''workout'' date w1
              else (Returned, print_lines (render_workouts L date data) w1)))"

text \<open>One statement after another: a command that exits ends the sequence.\<close>

definition and_then ::
  "(world \<Rightarrow> status \<times> world) \<Rightarrow> (world \<Rightarrow> status \<times> world) \<Rightarrow> world \<Rightarrow> status \<times> world" where
  "and_then f g w =
     (case f w of
        (Returned, w1) \<Rightarrow> g w1
      | (Exited c, w1) \<Rightarrow> (Exited c, w1)
      | (Blocked, w1) \<Rightarrow> (Blocked, w1))"

definition println :: "world \<Rightarrow> status \<times> world" where
  "println w = (Returned, print_out ''\<newline>'' w)"

text \<open>
  \<^verbatim>\<open>
  func fetchAll(date string) {
      (three lines of header)
      fetchReadiness(date); fmt.Println()
      fetchSleep(date);     fmt.Println()
      fetchActivity(date);  fmt.Println()
      fetchStress(date);    fmt.Println()
      fetchHeartRate(date)
  }
  \<close>
\<close>

definition fetchAll :: "codec \<Rightarrow> library \<Rightarrow> Config \<Rightarrow> string \<Rightarrow> world \<Rightarrow> status \<times> world" where
  "fetchAll J L cfg date =
     and_then (\<lambda>w. (Returned, print_lines (render_header L date) w))
    (and_then (fetchReadiness J L cfg date)
    (and_then println
    (and_then (fetchSleep J L cfg date)
    (and_then println
    (and_then (fetchActivity J L cfg date)
    (and_then println
    (and_then (fetchStress J L cfg date)
    (and_then println
              (fetchHeartRate J L cfg date)))))))))"

text \<open>
  \<^verbatim>\<open>
  for _, ep := range endpoints {
      body, err := apiGet(ep, params)
      if err != nil { continue }
      name := strings.TrimPrefix(ep, "/")
      result[name] = json.RawMessage(body)
  }
  \<close>
  Every endpoint starts with a slash, which \<^verbatim>\<open>TrimPrefix\<close> removes.
\<close>

definition endpoints :: "string list" where
  "endpoints = [''/sleep'', ''/daily_sleep'', ''/daily_activity'', ''/daily_readiness'',
     ''/heartrate'', ''/daily_stress'', ''/daily_spo2'', ''/daily_resilience'',
     ''/vO2_max'', ''/workout'']"

definition TrimPrefix :: "string \<Rightarrow> string \<Rightarrow> string" where
  "TrimPrefix s p = (if take (length p) s = p then drop (length p) s else s)"

fun json_loop ::
  "codec \<Rightarrow> Config \<Rightarrow> Values \<Rightarrow> string list \<Rightarrow> (string \<times> string) list \<Rightarrow> world
     \<Rightarrow> (string \<times> string) list \<times> world" where
  "json_loop J cfg params [] result w = (result, w)"
| "json_loop J cfg params (ep # eps) result w =
     (case apiGet J cfg ep params w of
        (Inl err, w1) \<Rightarrow> json_loop J cfg params eps result w1
      | (Inr body, w1) \<Rightarrow>
          json_loop J cfg params eps (Values_Set (TrimPrefix ep ''/'') body result) w1)"

definition fetchJSON :: "codec \<Rightarrow> library \<Rightarrow> Config \<Rightarrow> string \<Rightarrow> world \<Rightarrow> status \<times> world" where
  "fetchJSON J L cfg date w =
     (case json_loop J cfg (day_params date) endpoints [] w of
        (result, w1) \<Rightarrow> (Returned, print_out (marshal_bodies L result @ ''\<newline>'') w1))"

section \<open>OAuth flow\<close>

text \<open>
  \<^verbatim>\<open>doAuth\<close> starts an HTTP server in a goroutine of its own and waits in a \<^verbatim>\<open>select\<close>
  for one of three channels: \<^verbatim>\<open>codeChan\<close> and \<^verbatim>\<open>errChan\<close>, both buffered with capacity
  one, and the timer of \<^verbatim>\<open>time.After(2 * time.Minute)\<close>. The server runs the handler of
  each request in a goroutine of its own. What happens in a session is therefore decided
  by a schedule, the order of these events:
  \<^item> \<open>Request path query\<close>: a request reaches the server and its handler runs, up to its
    end or up to a channel send that blocks;
  \<^item> \<open>ServeError err\<close>: \<^verbatim>\<open>ListenAndServe\<close> returns an error other than
    \<^verbatim>\<open>http.ErrServerClosed\<close>;
  \<^item> \<open>TimerFires\<close>: the two minutes have passed and the timer channel is ready;
  \<^item> \<open>Select p\<close>: the \<^verbatim>\<open>select\<close> of the main goroutine takes channel \<open>p\<close>. Go chooses among
    the ready channels at random, so the schedule names the choice; an event that names
    a channel that is not ready, or comes after the \<^verbatim>\<open>select\<close> has been left, changes
    nothing.
\<close>

datatype pick = PickCode | PickErr | PickTimer

datatype event =
  Request string Values
| ServeError go_error
| TimerFires
| Select pick

datatype signal = GotCode string | GotErr go_error | TimedOut

text \<open>
  The state of a session: the contents of the two buffered channels, the values of the
  senders parked on a full channel, whether the server still accepts requests, whether the
  timer has fired, the responses the handlers have written (status and body), and what the
  \<^verbatim>\<open>select\<close> received.
\<close>

record auth =
  codeChan :: "string list"
  errChan :: "go_error list"
  parked_code :: "string list"
  parked_err :: "go_error list"
  listening :: bool
  timer :: bool
  handled :: "(int \<times> string) list"
  received :: "signal option"

definition auth_init :: auth where
  "auth_init =
     \<lparr>codeChan = [], errChan = [], parked_code = [], parked_err = [],
      listening = True, timer = False, handled = [], received = None\<rparr>"

text \<open>
  \<^verbatim>\<open>codeChan <- code\<close> and \<^verbatim>\<open>errChan <- err\<close>: the value goes into the buffer when it is
  empty; otherwise the sender parks.
\<close>

definition send_code :: "string \<Rightarrow> auth \<Rightarrow> auth" where
  "send_code code a =
     (if codeChan a = [] then a\<lparr>codeChan := [code]\<rparr>
      else a\<lparr>parked_code := parked_code a @ [code]\<rparr>)"

text \<open>
  The two rejecting branches of the handler send first and answer afterwards:
  \<^verbatim>\<open>errChan <- fmt.Errorf(...); http.Error(w, ..., http.StatusBadRequest); return\<close>.
  A handler parked on the send has not written its answer.
\<close>

definition reject :: "go_error \<Rightarrow> string \<Rightarrow> auth \<Rightarrow> auth" where
  "reject err text a =
     (if errChan a = [] then a\<lparr>errChan := [err], handled := handled a @ [(400, text @ ''\<newline>'')]\<rparr>
      else a\<lparr>parked_err := parked_err a @ [err]\<rparr>)"

definition auth_page :: string where
  "auth_page = ''<html><body><h1>'' @ [CHR 0xE2, CHR 0x9C, CHR 0x93]
     @ '' Authenticated!</h1><p>You can close this tab.</p></body></html>''"

text \<open>
  \<^verbatim>\<open>
  http.HandleFunc("/callback", func(w http.ResponseWriter, r *http.Request) {
      if r.URL.Query().Get("state") != state {
          errChan <- fmt.Errorf("state mismatch")
          http.Error(w, "State mismatch", http.StatusBadRequest)
          return
      }
      code := r.URL.Query().Get("code")
      if code == "" {
          errChan <- fmt.Errorf("no code in callback")
          http.Error(w, "No code", http.StatusBadRequest)
          return
      }
      w.Header().Set("Content-Type", "text/html")
      fmt.Fprint(w, `<html>...</html>`)
      codeChan <- code
  })
  \<close>
\<close>

definition callback :: "string \<Rightarrow> Values \<Rightarrow> auth \<Rightarrow> auth" where
  "callback state query a =
     (if Values_Get query ''state'' \<noteq> state then reject ''state mismatch'' ''State mismatch'' a
      else if Values_Get query ''code'' = [] then reject ''no code in callback'' ''No code'' a
      else send_code (Values_Get query ''code'') (a\<lparr>handled := handled a @ [(200, auth_page)]\<rparr>))"

text \<open>
  The server has no handler of its own, so requests go to the default multiplexer, which
  knows the one pattern \<^verbatim>\<open>/callback\<close> and answers every other path with 404.
\<close>

definition serve :: "string \<Rightarrow> string \<Rightarrow> Values \<Rightarrow> auth \<Rightarrow> auth" where
  "serve state path query a =
     (if path = ''/callback'' then callback state query a
      else a\<lparr>handled := handled a @ [(404, ''404 page not found\<newline>'')]\<rparr>)"

text \<open>
  \<^verbatim>\<open>
  go func() {
      if err := server.ListenAndServe(); err != http.ErrServerClosed { errChan <- err }
  }()
  \<close>
\<close>

definition serve_error :: "go_error \<Rightarrow> auth \<Rightarrow> auth" where
  "serve_error err a =
     (if errChan a = [] then a\<lparr>errChan := [err], listening := False\<rparr>
      else a\<lparr>parked_err := parked_err a @ [err], listening := False\<rparr>)"

text \<open>
  \<^verbatim>\<open>
  select {
  case code := <-codeChan:          server.Close(); exchangeCode(code)
  case err := <-errChan:            server.Close(); (print); os.Exit(1)
  case <-time.After(2 * time.Minute): server.Close(); (print); os.Exit(1)
  }
  \<close>
  A receive takes the value in the buffer, and the first parked sender, if any, puts its
  value there. Every branch closes the server first; the receive and the close are one
  step of the model.
\<close>

definition select_step :: "pick \<Rightarrow> auth \<Rightarrow> auth" where
  "select_step p a =
     (case p of
        PickCode \<Rightarrow>
          (case codeChan a of
             [] \<Rightarrow> a
           | code # rest \<Rightarrow>
               a\<lparr>codeChan := take 1 (parked_code a), parked_code := drop 1 (parked_code a),
                  received := Some (GotCode code), listening := False\<rparr>)
      | PickErr \<Rightarrow>
          (case errChan a of
             [] \<Rightarrow> a
           | err # rest \<Rightarrow>
               a\<lparr>errChan := take 1 (parked_err a), parked_err := drop 1 (parked_err a),
                  received := Some (GotErr err), listening := False\<rparr>)
      | PickTimer \<Rightarrow>
          (if timer a then a\<lparr>received := Some TimedOut, listening := False\<rparr> else a))"

definition auth_step :: "string \<Rightarrow> event \<Rightarrow> auth \<Rightarrow> auth" where
  "auth_step state ev a =
     (case ev of
        Request path query \<Rightarrow> (if listening a then serve state path query a else a)
      | ServeError err \<Rightarrow> (if listening a then serve_error err a else a)
      | TimerFires \<Rightarrow> a\<lparr>timer := True\<rparr>
      | Select p \<Rightarrow> (if received a = None then select_step p a else a))"

definition auth_session :: "string \<Rightarrow> event list \<Rightarrow> auth" where
  "auth_session state sched = fold (auth_step state) sched auth_init"

text \<open>
  \<^verbatim>\<open>state := fmt.Sprintf("%d", time.Now().UnixNano())\<close>: \<^verbatim>\<open>UnixNano\<close> is the instant as a
  64-bit count of nanoseconds.
\<close>

definition UnixNano :: "Time \<Rightarrow> int" where
  "UnixNano t = sint (word_of_int t :: go_int)"

definition new_state :: "Time \<Rightarrow> string" where
  "new_state now = itoa (UnixNano now)"

definition auth_params :: "Config \<Rightarrow> string \<Rightarrow> Values" where
  "auth_params cfg state =
     Values_Set ''state'' state
       (Values_Set ''scope'' ''daily heartrate personal workout spo2 stress heart_health''
         (Values_Set ''response_type'' ''code''
           (Values_Set ''redirect_uri'' redirectURI
             (Values_Set ''client_id'' (ClientID cfg) []))))"

definition exchange_form :: "Config \<Rightarrow> string \<Rightarrow> Values" where
  "exchange_form cfg code =
     Values_Set ''client_secret'' (ClientSecret cfg)
       (Values_Set ''client_id'' (ClientID cfg)
         (Values_Set ''redirect_uri'' redirectURI
           (Values_Set ''code'' code
             (Values_Set ''grant_type'' ''authorization_code'' []))))"

text \<open>
  \<^verbatim>\<open>exchangeCode\<close>: every failure is printed to standard error and ends the process with
  status 1.
\<close>

definition die :: "string \<Rightarrow> world \<Rightarrow> status \<times> world" where
  "die text w = (Exited 1, print_err text w)"

definition exchangeCode :: "codec \<Rightarrow> Config \<Rightarrow> string \<Rightarrow> world \<Rightarrow> status \<times> world" where
  "exchangeCode J cfg code w =
     (case http_send (PostForm tokenURL (exchange_form cfg code)) w of
        (Inl err, w1) \<Rightarrow> die (''Token exchange failed: '' @ err @ ''\<newline>'') w1
      | (Inr resp, w1) \<Rightarrow>
          if StatusCode resp \<noteq> 200
          then die (''Token exchange failed: '' @ Body resp @ ''\<newline>'') w1
          else
            (case decode_TokenResponse J resp of
               Inl err \<Rightarrow> die (''Failed to parse token: '' @ err @ ''\<newline>'') w1
             | Inr tokenResp \<Rightarrow>
                 (case time_Now w1 of
                    (now, w2) \<Rightarrow>
                      (case saveToken J (new_token tokenResp now) w2 of
                         (Some err, w3) \<Rightarrow> die (''Failed to save token: '' @ err @ ''\<newline>'') w3
                       | (None, w3) \<Rightarrow>
                           (Returned,
                            print_out ([CHR 0xE2, CHR 0x9C, CHR 0x93]
                                       @ '' Authenticated successfully!\<newline>'') w3)))))"

text \<open>\<^verbatim>\<open>openBrowser\<close> starts the launcher of the platform and ignores its failure.\<close>

definition openBrowser :: "string \<Rightarrow> world \<Rightarrow> world" where
  "openBrowser url w = w\<lparr>opened := opened w @ [url]\<rparr>"

text \<open>
  \<^verbatim>\<open>doAuth\<close>, run against a schedule. The world records what the session leaves behind:
  whether port 8081 is still served and the responses written to the browser.
\<close>

definition doAuth ::
  "codec \<Rightarrow> library \<Rightarrow> Config \<Rightarrow> event list \<Rightarrow> world \<Rightarrow> status \<times> world" where
  "doAuth J L cfg sched w =
     (case time_Now w of
        (now, w0) \<Rightarrow>
          (let state = new_state now;
               fullAuthURL = authURL @ ''?'' @ Encode L (auth_params cfg state);
               a = auth_session state sched;
               w1 = (openBrowser fullAuthURL
                      (print_out (fullAuthURL @ ''\<newline>'')
                        (print_out ''If it doesn't open, visit:\<newline>''
                          (print_out ''Opening browser for authentication...\<newline>'' w0))))
                    \<lparr>port_served := listening a, answered := handled a\<rparr>
           in case received a of
                None \<Rightarrow> (Blocked, w1)
              | Some (GotCode code) \<Rightarrow> exchangeCode J cfg code w1
              | Some (GotErr err) \<Rightarrow> die (''Auth error: '' @ err @ ''\<newline>'') w1
              | Some TimedOut \<Rightarrow> die ''Auth timeout\<newline>'' w1))"

section \<open>Entry point\<close>

text \<open>
  \<^verbatim>\<open>
  func loadConfig() error {
      configPath := filepath.Join(getConfigDir(), "config.json")
      data, err := os.ReadFile(configPath)
      if err != nil {
          return fmt.Errorf("missing config: %s\nCreate it with:\n{\n  ... }", configPath)
      }
      return json.Unmarshal(data, &config)
  }
  \<close>
\<close>

definition loadConfig :: "codec \<Rightarrow> world \<Rightarrow> go_error + Config" where
  \<open>loadConfig J w =
     (case config_file w of
        Inl err \<Rightarrow>
          Inl (''missing config: '' @ config_path w
               @ ''\<newline>Create it with:\<newline>{\<newline>  "client_id": "your-id",\<newline>  "client_secret": "your-secret"\<newline>}'')
      | Inr data \<Rightarrow> unmarshal_Config J data)\<close>

text \<open>The text \<^verbatim>\<open>printUsage\<close> prints.\<close>

definition usage :: string where
  "usage = concat
     [''oura - Oura Ring CLI\<newline>'',
      ''\<newline>'',
      ''Commands:\<newline>'',
      ''  auth              Authenticate with Oura (first time setup)\<newline>'',
      ''  today             Show today's summary\<newline>'',
      ''  all [date]        Show all metrics for date (default: today)\<newline>'',
      ''  sleep [date]      Show sleep data\<newline>'',
      ''  activity [date]   Show activity data  \<newline>'',
      ''  readiness [date]  Show readiness data\<newline>'',
      ''  heartrate [date]  Show heart rate data\<newline>'',
      ''  stress [date]     Show daytime stress data\<newline>'',
      ''  spo2 [date]       Show blood oxygen data\<newline>'',
      ''  resilience [date] Show resilience data\<newline>'',
      ''  vo2 [date]        Show VO2 max data\<newline>'',
      ''  workout [date]    Show workouts\<newline>'',
      ''  json [date]       Raw JSON dump of all data\<newline>'',
      ''\<newline>'',
      ''Date format: YYYY-MM-DD (defaults to today)'']"

text \<open>
  \<^verbatim>\<open>
  func getDateArg() string {
      if len(os.Args) > 2 { return os.Args[2] }
      return time.Now().Format("2006-01-02")
  }
  \<close>
\<close>

definition getDateArg :: "library \<Rightarrow> string list \<Rightarrow> world \<Rightarrow> string \<times> world" where
  "getDateArg L args w =
     (if length args > 2 then (args ! 2, w)
      else (case time_Now w of (now, w1) \<Rightarrow> (today L now, w1)))"

definition dated ::
  "library \<Rightarrow> string list \<Rightarrow> (string \<Rightarrow> world \<Rightarrow> status \<times> world) \<Rightarrow> world \<Rightarrow> status \<times> world" where
  "dated L args f w = (case getDateArg L args w of (date, w1) \<Rightarrow> f date w1)"

text \<open>
  \<^verbatim>\<open>main\<close>, on the argument vector \<^verbatim>\<open>os.Args\<close> (the program name first). The schedule is
  used by the auth command only.
\<close>

definition main ::
  "codec \<Rightarrow> library \<Rightarrow> event list \<Rightarrow> string list \<Rightarrow> world \<Rightarrow> status \<times> world" where
  "main J L sched args w =
     (if length args < 2 then (Exited 1, print_out (usage @ ''\<newline>'') w)
      else
        (case loadConfig J w of
           Inl err \<Rightarrow> (Exited 1, print_err (err @ ''\<newline>'') w)
         | Inr cfg \<Rightarrow>
             (let cmd = args ! 1 in
              if cmd = ''auth'' then doAuth J L cfg sched w
              else if cmd = ''today'' then
                (case time_Now w of (now, w1) \<Rightarrow> fetchAll J L cfg (today L now) w1)
              else if cmd = ''sleep'' then dated L args (fetchSleep J L cfg) w
              else if cmd = ''activity'' then dated L args (fetchActivity J L cfg) w
              else if cmd = ''readiness'' then dated L args (fetchReadiness J L cfg) w
              else if cmd = ''heartrate'' then dated L args (fetchHeartRate J L cfg) w
              else if cmd = ''stress'' then dated L args (fetchStress J L cfg) w
              else if cmd = ''spo2'' then dated L args (fetchSpO2 J L cfg) w
              else if cmd = ''resilience'' then dated L args (fetchResilience J L cfg) w
              else if cmd = ''vo2'' then dated L args (fetchVO2Max J L cfg) w
              else if cmd = ''workout'' then dated L args (fetchWorkouts J L cfg) w
              else if cmd = ''all'' then dated L args (fetchAll J L cfg) w
              else if cmd = ''json'' then dated L args (fetchJSON J L cfg) w
              else (Exited 1, print_out (usage @ ''\<newline>'') w))))"


section \<open>An example library and a world without data\<close>

text \<open>
  A response of the heart-rate endpoint with two readings, both above the sentinel 999, and
  the records it decodes to.
\<close>

definition ex_heartrate_body :: string where
  \<open>ex_heartrate_body =
     ''{"data":[{"bpm":1000,"source":"awake","timestamp":"2026-01-10T08:00:00+00:00"},''
     @ ''{"bpm":1201,"source":"awake","timestamp":"2026-01-10T08:05:00+00:00"}]}''\<close>

definition ex_readings :: "HeartRateRecord list" where
  "ex_readings =
     [\<lparr>Timestamp = ''2026-01-10T08:00:00+00:00'', BPM = 1000, Source = ''awake''\<rparr>,
      \<lparr>Timestamp = ''2026-01-10T08:05:00+00:00'', BPM = 1201, Source = ''awake''\<rparr>]"

text \<open>The first and the last line of the header of the all command.\<close>

definition ex_header_top :: string where
  "ex_header_top = [CHR 0xE2, CHR 0x95, CHR 0x94]
     @ concat (replicate 38 [CHR 0xE2, CHR 0x95, CHR 0x90])
     @ [CHR 0xE2, CHR 0x95, CHR 0x97] @ ''\<newline>''"

definition ex_header_bottom :: string where
  "ex_header_bottom = [CHR 0xE2, CHR 0x95, CHR 0x9A]
     @ concat (replicate 38 [CHR 0xE2, CHR 0x95, CHR 0x90])
     @ [CHR 0xE2, CHR 0x95, CHR 0x9D] @ ''\<newline>\<newline>''"

definition ex_library :: library where
  "ex_library =
     \<lparr>decode_sleep = (\<lambda>s. []),
      decode_daily_sleep = (\<lambda>s. []),
      decode_readiness = (\<lambda>s. []),
      decode_activity = (\<lambda>s. []),
      decode_heartrate = (\<lambda>s. if s = ex_heartrate_body then ex_readings else []),
      decode_stress = (\<lambda>s. []),
      decode_spo2 = (\<lambda>s. []),
      decode_resilience = (\<lambda>s. []),
      decode_vo2 = (\<lambda>s. []),
      decode_workout = (\<lambda>s. []),
      day_before = (\<lambda>d. if d = ''2026-01-10'' then ''2026-01-09'' else ''0000-12-31''),
      day_after = (\<lambda>d. if d = ''2026-01-10'' then ''2026-01-11'' else ''0001-01-02''),
      today = (\<lambda>t. ''2026-01-10''),
      render_sleep = (\<lambda>d r rs. []),
      render_readiness = (\<lambda>r. []),
      render_activity = (\<lambda>r. []),
      render_spo2 = (\<lambda>r. []),
      render_resilience = (\<lambda>r. []),
      render_vo2 = (\<lambda>r. []),
      render_workouts = (\<lambda>d rs. []),
      render_header = (\<lambda>d. [ex_header_top,
                              [CHR 0xE2, CHR 0x95, CHR 0x91] @ ''      OURA METRICS - '' @ d
                                @ replicate (10 - length d) CHR '' '' @ ''       ''
                                @ [CHR 0xE2, CHR 0x95, CHR 0x91] @ ''\<newline>'',
                              ex_header_bottom]),
      marshal_bodies = (\<lambda>m. if m = [] then ''{}'' else ''{...}''),
      Encode = (\<lambda>m. ''client_id=my-id&redirect_uri=http%3A%2F%2Flocalhost%3A8081%2Fcallback''
                     @ ''&response_type=code''
                     @ ''&scope=daily+heartrate+personal+workout+spo2+stress+heart_health&state=''
                     @ Values_Get m ''state'')\<rparr>"



text \<open>The same world with a heart-rate endpoint that has two readings.\<close>

definition ex_world_heartrate :: world where
  "ex_world_heartrate =
     (ex_world_at 1768039200000000000)
       \<lparr>net := (\<lambda>n req. case req of
                  Get url query auth \<Rightarrow> Inr \<lparr>StatusCode = 200, Body = ex_heartrate_body, BodyErr = None\<rparr>
                | PostForm url form \<Rightarrow> Inl ''dial tcp: connection refused'')\<rparr>"

text \<open>The example world before the first authentication: no token file.\<close>

definition ex_world_unauth :: world where
  "ex_world_unauth =
     ex_world\<lparr>token_file := Inl ''open /home/u/.config/oura/token.json: no such file or directory''\<rparr>"

section \<open>Schedules of an auth session\<close>




text \<open>A session continued from a given state.\<close>

definition auth_from :: "string \<Rightarrow> event list \<Rightarrow> auth \<Rightarrow> auth" where
  "auth_from state sched a = fold (auth_step state) sched a"




section \<open>Facts about the heart-rate loop\<close>

lemma hr_loop_sum: "hr_sum (hr_loop xs s) = hr_sum s + sum_list (map BPM xs)"
  by (induction xs arbitrary: s) (simp_all add: add.assoc)

lemma hr_loop_min_fold:
  "sint (hr_min (hr_loop xs s)) = fold min (map (\<lambda>r. sint (BPM r)) xs) (sint (hr_min s))"
  by (induction xs arbitrary: s) (simp_all add: word_sless_alt min_def not_less)

lemma hr_loop_min:
  "sint (hr_min (hr_loop xs s)) = Min (insert (sint (hr_min s)) (set (map (\<lambda>r. sint (BPM r)) xs)))"
  using Min.set_eq_fold [of "sint (hr_min s)" "map (\<lambda>r. sint (BPM r)) xs"]
  by (simp add: hr_loop_min_fold)

lemma hr_loop_max_fold:
  "sint (hr_max (hr_loop xs s)) = fold max (map (\<lambda>r. sint (BPM r)) xs) (sint (hr_max s))"
  by (induction xs arbitrary: s) (simp_all add: word_sless_alt max_def not_less)

lemma hr_loop_max:
  "sint (hr_max (hr_loop xs s)) = Max (insert (sint (hr_max s)) (set (map (\<lambda>r. sint (BPM r)) xs)))"
  using Max.set_eq_fold [of "sint (hr_max s)" "map (\<lambda>r. sint (BPM r)) xs"]
  by (simp add: hr_loop_max_fold)

lemma sint_sum_list_exact:
  fixes ws :: "go_int list"
  assumes "- (2 ^ 63) \<le> sum_list (map sint ws)" "sum_list (map sint ws) < 2 ^ 63"
  shows "sint (sum_list ws) = sum_list (map sint ws)"
proof -
  have "(word_of_int (sum_list (map sint ws)) :: go_int) = sum_list ws"
    by (induction ws) simp_all
  then have "sint (sum_list ws) = sint (word_of_int (sum_list (map sint ws)) :: go_int)"
    by simp
  also have "\<dots> = sum_list (map sint ws)"
    using assms by (simp add: sint_sbintrunc' signed_take_bit_int_eq_self)
  finally show ?thesis .
qed

lemma sint_go_len: "length xs < 2 ^ 63 \<Longrightarrow> sint (go_len xs) = int (length xs)"
  by (simp add: go_len_def signed_of_nat signed_take_bit_int_eq_self)

lemma sint_go_div:
  assumes "0 < sint b"
  shows "sint (go_div a b) = sint a sdiv sint b"
proof -
  have r: "sint a sdiv sint b \<in> {- \<bar>sint a\<bar>..\<bar>sint a\<bar>}" by (rule sdiv_int_range)
  have lo: "- (2 ^ 63) \<le> sint a" and hi: "sint a < 2 ^ 63"
    using sint_ge [of a] sint_lt [of a] by simp_all
  have "sint a sdiv sint b \<noteq> 2 ^ 63"
  proof
    assume e: "sint a sdiv sint b = 2 ^ 63"
    with r lo hi have "sint a = - (2 ^ 63)" by auto
    with e assms have "- ((2 ^ 63) div sint b) = (2 ^ 63 :: int)"
      by (simp add: signed_divide_int_def sgn_if)
    moreover have "0 \<le> (2 ^ 63 :: int) div sint b"
      using assms by (simp add: pos_imp_zdiv_nonneg_iff)
    ultimately show False by simp
  qed
  with r lo hi have "- (2 ^ 63) \<le> sint a sdiv sint b" "sint a sdiv sint b < 2 ^ 63" by auto
  then show ?thesis
    unfolding go_div_def by (simp add: sint_sbintrunc' signed_take_bit_int_eq_self)
qed

text \<open>What the loop and the division compute.\<close>

lemma hr_loop_min_avg:
  assumes "xs \<noteq> []" and "length xs < 2 ^ 63"
  shows "sint (hr_min (hr_loop xs hr_init)) = min 999 (Min (set (map (\<lambda>r. sint (BPM r)) xs)))
       \<and> hr_avg xs = go_div (sum_list (map BPM xs)) (go_len xs)
       \<and> (- (2 ^ 63) \<le> sum_list (map (\<lambda>r. sint (BPM r)) xs)
            \<and> sum_list (map (\<lambda>r. sint (BPM r)) xs) < 2 ^ 63
          \<longrightarrow> sint (hr_avg xs) = sum_list (map (\<lambda>r. sint (BPM r)) xs) sdiv int (length xs))"
proof (intro conjI impI)
  have ne: "set (map (\<lambda>r. sint (BPM r)) xs) \<noteq> {}" using assms(1) by simp
  show "sint (hr_min (hr_loop xs hr_init)) = min 999 (Min (set (map (\<lambda>r. sint (BPM r)) xs)))"
    using ne by (simp add: hr_loop_min hr_init_def del: set_map)
next
  show avg: "hr_avg xs = go_div (sum_list (map BPM xs)) (go_len xs)"
    by (simp add: hr_avg_def hr_loop_sum hr_init_def)
next
  assume range: "- (2 ^ 63) \<le> sum_list (map (\<lambda>r. sint (BPM r)) xs)
     \<and> sum_list (map (\<lambda>r. sint (BPM r)) xs) < 2 ^ 63"
  have len: "sint (go_len xs) = int (length xs)"
    using assms(2) by (rule sint_go_len)
  have pos: "0 < sint (go_len xs)"
    using assms(1) len by simp
  have "sint (sum_list (map BPM xs)) = sum_list (map sint (map BPM xs))"
    using range by (intro sint_sum_list_exact) (simp_all add: comp_def)
  then have sum: "sint (sum_list (map BPM xs)) = sum_list (map (\<lambda>r. sint (BPM r)) xs)"
    by (simp add: comp_def)
  show "sint (hr_avg xs) = sum_list (map (\<lambda>r. sint (BPM r)) xs) sdiv int (length xs)"
    by (simp add: hr_avg_def hr_loop_sum hr_init_def sint_go_div [OF pos] sum len)
qed

section \<open>Token manager: when a refresh happens\<close>

lemma five_minutes: "sint (5 * Minute) = 300000000000"
  by (simp add: Minute_def Second_def)

lemma refresh_due_iff:
  "Time_After (Time_Add now (5 * Minute)) e \<longleftrightarrow> e < now + 300000000000"
  by (simp add: Time_After_def Time_Add_def five_minutes)

lemma refreshToken_sent:
  "sent (snd (refreshToken J cfg refresh w)) = sent w @ [PostForm tokenURL (refresh_form cfg refresh)]"
  by (auto simp: refreshToken_def http_send_def time_Now_def saveToken_def WriteFile_token_def
           split: sum.splits prod.splits option.splits)

lemma refreshToken_rejected:
  assumes "net w (length (sent w)) (PostForm tokenURL (refresh_form cfg refresh)) = Inr resp"
    and "StatusCode resp \<noteq> 200"
  shows "refreshToken J cfg refresh w =
           (Inl (''token refresh failed: '' @ Body resp),
            w\<lparr>sent := sent w @ [PostForm tokenURL (refresh_form cfg refresh)]\<rparr>)"
  using assms by (simp add: refreshToken_def http_send_def)

text \<open>
  C1, as the code has it. With a token record on disk, \<^verbatim>\<open>getValidToken\<close> reads the clock
  once. When \<open>expires_at\<close> is five minutes or more after that reading, it returns the
  stored access token, sends no request and changes nothing else. When \<open>expires_at\<close> is
  less than five minutes after the reading (or past), it calls \<^verbatim>\<open>refreshToken\<close> with the
  stored refresh token, its result is the outcome of that call, and exactly one request, the
  refresh form posted to the token endpoint, has been sent when it returns.
\<close>

theorem getValidToken_refresh_strict:
  assumes "loadToken J w = Inr token"
  shows "(clock w (ticks w) + 300000000000 \<le> ExpiresAt token \<longrightarrow>
            getValidToken J cfg w = (Inr (AccessToken token), w\<lparr>ticks := Suc (ticks w)\<rparr>))
       \<and> (ExpiresAt token < clock w (ticks w) + 300000000000 \<longrightarrow>
            getValidToken J cfg w =
              (case refreshToken J cfg (RefreshToken token) (w\<lparr>ticks := Suc (ticks w)\<rparr>) of
                 (Inl err, w2) \<Rightarrow> (Inl (''token refresh failed - run 'oura auth' again: '' @ err), w2)
               | (Inr newToken, w2) \<Rightarrow> (Inr (AccessToken newToken), w2))
          \<and> sent (snd (getValidToken J cfg w)) =
              sent w @ [PostForm tokenURL (refresh_form cfg (RefreshToken token))])"
proof (intro conjI impI)
  assume "clock w (ticks w) + 300000000000 \<le> ExpiresAt token"
  then have "\<not> Time_After (Time_Add (clock w (ticks w)) (5 * Minute)) (ExpiresAt token)"
    by (simp add: refresh_due_iff)
  then show "getValidToken J cfg w = (Inr (AccessToken token), w\<lparr>ticks := Suc (ticks w)\<rparr>)"
    using assms by (simp add: getValidToken_def time_Now_def)
next
  assume "ExpiresAt token < clock w (ticks w) + 300000000000"
  then have due: "Time_After (Time_Add (clock w (ticks w)) (5 * Minute)) (ExpiresAt token)"
    by (simp add: refresh_due_iff)
  show eq: "getValidToken J cfg w =
      (case refreshToken J cfg (RefreshToken token) (w\<lparr>ticks := Suc (ticks w)\<rparr>) of
         (Inl err, w2) \<Rightarrow> (Inl (''token refresh failed - run 'oura auth' again: '' @ err), w2)
       | (Inr newToken, w2) \<Rightarrow> (Inr (AccessToken newToken), w2))"
    using assms due by (simp add: getValidToken_def time_Now_def)
  have "sent (snd (getValidToken J cfg w)) =
          sent (snd (refreshToken J cfg (RefreshToken token) (w\<lparr>ticks := Suc (ticks w)\<rparr>)))"
    unfolding eq by (simp split: prod.splits sum.splits)
  then show "sent (snd (getValidToken J cfg w)) =
      sent w @ [PostForm tokenURL (refresh_form cfg (RefreshToken token))]"
    by (simp add: refreshToken_sent)
qed

lemma ex_load: "loadToken ex_codec ex_world = Inr ex_token"
  by (simp add: loadToken_def ex_codec_def ex_world_def)

text \<open>
  C1 as stated fails at the boundary: \<^verbatim>\<open>After\<close> is a strict comparison, so with
  \<open>expires_at\<close> exactly five minutes after the clock reading the stored token is returned
  and no request is sent.
\<close>

theorem getValidToken_boundary_counterexample:
  "loadToken ex_codec (ex_world_at 1768046400000000000) = Inr ex_token
   \<and> ExpiresAt ex_token = clock (ex_world_at 1768046400000000000) 0 + 300000000000
   \<and> fst (getValidToken ex_codec ex_cfg (ex_world_at 1768046400000000000)) = Inr ''AT1''
   \<and> sent (snd (getValidToken ex_codec ex_cfg (ex_world_at 1768046400000000000))) = []"
  by (simp add: getValidToken_def loadToken_def ex_codec_def ex_world_def ex_world_at_def
        ex_token_def time_Now_def refresh_due_iff)

theorem getValidToken_refresh_strict_witness:
  "loadToken ex_codec ex_world = Inr ex_token
   \<and> getValidToken ex_codec ex_cfg (ex_world_at 1768046400000000000)
       = (Inr ''AT1'', (ex_world_at 1768046400000000000)\<lparr>ticks := 1\<rparr>)
   \<and> sent (snd (getValidToken ex_codec ex_cfg (ex_world_at 1768046400000000001)))
       = [PostForm tokenURL (refresh_form ex_cfg ''RT1'')]"
proof -
  let ?w0 = "ex_world_at 1768046400000000000"
  let ?w1 = "ex_world_at 1768046400000000001"
  have l0: "loadToken ex_codec ?w0 = Inr ex_token" and l1: "loadToken ex_codec ?w1 = Inr ex_token"
    by (simp_all add: loadToken_def ex_codec_def ex_world_def ex_world_at_def)
  have "clock ?w0 (ticks ?w0) + 300000000000 \<le> ExpiresAt ex_token"
    by (simp add: ex_world_def ex_world_at_def ex_token_def)
  with getValidToken_refresh_strict [OF l0, of ex_cfg]
  have "getValidToken ex_codec ex_cfg ?w0 = (Inr (AccessToken ex_token), ?w0\<lparr>ticks := Suc (ticks ?w0)\<rparr>)"
    by blast
  then have a: "getValidToken ex_codec ex_cfg ?w0 = (Inr ''AT1'', ?w0\<lparr>ticks := 1\<rparr>)"
    by (simp add: ex_world_def ex_world_at_def ex_token_def)
  have "ExpiresAt ex_token < clock ?w1 (ticks ?w1) + 300000000000"
    by (simp add: ex_world_def ex_world_at_def ex_token_def)
  with getValidToken_refresh_strict [OF l1, of ex_cfg]
  have "sent (snd (getValidToken ex_codec ex_cfg ?w1))
      = sent ?w1 @ [PostForm tokenURL (refresh_form ex_cfg (RefreshToken ex_token))]"
    by blast
  then have b: "sent (snd (getValidToken ex_codec ex_cfg ?w1))
      = [PostForm tokenURL (refresh_form ex_cfg ''RT1'')]"
    by (simp add: ex_world_def ex_world_at_def ex_token_def)
  show ?thesis using ex_load a b by simp
qed

text \<open>
  C2. When the stored token is due for a refresh and the token endpoint answers the refresh
  request with a status other than 200, \<^verbatim>\<open>getValidToken\<close> fails with an error whose message
  ends with the response body, the token file holds what it held before, and
  \<^verbatim>\<open>os.WriteFile\<close> has not been called.
\<close>

theorem refresh_failure_atomic:
  assumes "loadToken J w = Inr token"
    and "ExpiresAt token < clock w (ticks w) + 300000000000"
    and "net w (length (sent w)) (PostForm tokenURL (refresh_form cfg (RefreshToken token))) = Inr resp"
    and "StatusCode resp \<noteq> 200"
  shows "fst (getValidToken J cfg w) =
           Inl (''token refresh failed - run 'oura auth' again: token refresh failed: '' @ Body resp)
       \<and> token_file (snd (getValidToken J cfg w)) = token_file w
       \<and> writes (snd (getValidToken J cfg w)) = writes w"
proof -
  have due: "Time_After (Time_Add (clock w (ticks w)) (5 * Minute)) (ExpiresAt token)"
    using assms(2) by (simp add: refresh_due_iff)
  let ?w1 = "w\<lparr>ticks := Suc (ticks w)\<rparr>"
  have "net ?w1 (length (sent ?w1)) (PostForm tokenURL (refresh_form cfg (RefreshToken token))) = Inr resp"
    using assms(3) by simp
  from refreshToken_rejected [OF this assms(4)]
  show ?thesis
    using assms(1) due by (simp add: getValidToken_def time_Now_def)
qed

theorem refresh_failure_atomic_witness:
  "fst (getValidToken ex_codec ex_cfg (ex_world\<lparr>ticks := 400\<rparr>)) =
     Inl (''token refresh failed - run 'oura auth' again: token refresh failed: {\"error\":\"invalid_grant\"}'')
   \<and> token_file (snd (getValidToken ex_codec ex_cfg (ex_world\<lparr>ticks := 400\<rparr>))) = Inr ex_token_text
   \<and> writes (snd (getValidToken ex_codec ex_cfg (ex_world\<lparr>ticks := 400\<rparr>))) = []"
  using refresh_failure_atomic [of ex_codec "ex_world\<lparr>ticks := 400\<rparr>" ex_token ex_cfg
          "\<lparr>StatusCode = 401, Body = ''{\"error\":\"invalid_grant\"}'', BodyErr = None\<rparr>"]
  by (simp add: loadToken_def ex_codec_def ex_world_def ex_token_def)

section \<open>Report commands: the empty result\<close>

lemma main_dated:
  assumes "loadConfig J w = Inr cfg"
  shows "main J L sched [prog, ''sleep'', date] w = fetchSleep J L cfg date w"
    and "main J L sched [prog, ''activity'', date] w = fetchActivity J L cfg date w"
    and "main J L sched [prog, ''readiness'', date] w = fetchReadiness J L cfg date w"
    and "main J L sched [prog, ''heartrate'', date] w = fetchHeartRate J L cfg date w"
    and "main J L sched [prog, ''stress'', date] w = fetchStress J L cfg date w"
    and "main J L sched [prog, ''spo2'', date] w = fetchSpO2 J L cfg date w"
    and "main J L sched [prog, ''resilience'', date] w = fetchResilience J L cfg date w"
    and "main J L sched [prog, ''vo2'', date] w = fetchVO2Max J L cfg date w"
    and "main J L sched [prog, ''workout'', date] w = fetchWorkouts J L cfg date w"
    and "main J L sched [prog, ''all'', date] w = fetchAll J L cfg date w"
    and "main J L sched [prog, ''json'', date] w = fetchJSON J L cfg date w"
  using assms by (simp_all add: main_def dated_def getDateArg_def)








section \<open>Which failures end the command\<close>









lemma main_auth:
  assumes "loadConfig J w = Inr cfg"
  shows "main J L sched [prog, ''auth''] w = doAuth J L cfg sched w"
  using assms by (simp add: main_def)










section \<open>The auth session\<close>


lemma auth_from_simps [simp]:
  "auth_from state [] a = a"
  "auth_from state (ev # rest) a = auth_from state rest (auth_step state ev a)"
  "auth_from state (xs @ ys) a = auth_from state ys (auth_from state xs a)"
  by (simp_all add: auth_from_def)














text \<open>What \<^verbatim>\<open>exchangeCode\<close> leaves alone.\<close>

lemma saveToken_frame:
  "saveToken J token w = (e, w') \<Longrightarrow>
     port_served w' = port_served w \<and> answered w' = answered w \<and> opened w' = opened w"
  by (auto simp: saveToken_def WriteFile_token_def split: sum.splits option.splits prod.splits)

lemma exchangeCode_frame:
  "port_served (snd (exchangeCode J cfg code w)) = port_served w
   \<and> answered (snd (exchangeCode J cfg code w)) = answered w
   \<and> opened (snd (exchangeCode J cfg code w)) = opened w"
  by (auto simp: exchangeCode_def die_def print_err_def print_out_def http_send_def time_Now_def
           split: sum.splits prod.splits option.splits if_splits
           dest!: saveToken_frame)

lemma doAuth_frame:
  "port_served (snd (doAuth J L cfg sched w))
     = listening (auth_session (new_state (clock w (ticks w))) sched)
   \<and> answered (snd (doAuth J L cfg sched w))
     = handled (auth_session (new_state (clock w (ticks w))) sched)
   \<and> opened (snd (doAuth J L cfg sched w))
     = opened w @ [authURL @ ''?'' @ Encode L (auth_params cfg (new_state (clock w (ticks w))))]"
  by (simp add: doAuth_def time_Now_def Let_def exchangeCode_frame die_def print_err_def
        print_out_def openBrowser_def split: option.splits signal.splits)









section \<open>A callback with the wrong state\<close>









section \<open>The state value of the auth flow\<close>

lemma digit_char_code: "d < 10 \<Longrightarrow> of_char (digit_char d) = 48 + d"
proof -
  assume "d < 10"
  then have "d = 0 \<or> d = 1 \<or> d = 2 \<or> d = 3 \<or> d = 4 \<or> d = 5 \<or> d = 6 \<or> d = 7
      \<or> d = 8 \<or> d = 9"
    by arith
  then show ?thesis by (elim disjE) (simp_all add: digit_char_def)
qed

lemma digit_char_inj:
  assumes "a < 10" "b < 10" "digit_char a = digit_char b"
  shows "a = b"
proof -
  have "(of_char (digit_char a) :: nat) = 48 + a" using assms(1) by (rule digit_char_code)
  moreover have "(of_char (digit_char a) :: nat) = 48 + b"
    unfolding assms(3) using assms(2) by (rule digit_char_code)
  ultimately show ?thesis by linarith
qed

lemma digit_char_not_minus:
  assumes "d < 10"
  shows "digit_char d \<noteq> CHR ''-''"
proof
  assume e: "digit_char d = CHR ''-''"
  have "(of_char (digit_char d) :: nat) = 48 + d" using assms by (rule digit_char_code)
  then have "(of_char (CHR ''-'') :: nat) = 48 + d" unfolding e .
  then show False by simp
qed

lemma digits_not_Nil: "digits n \<noteq> []"
  by (subst digits.simps) simp

lemma digits_last: "last (digits n) = digit_char (n mod 10)"
  by (subst digits.simps) simp

lemma digits_butlast: "butlast (digits n) = (if n < 10 then [] else digits (n div 10))"
  by (subst digits.simps) (simp add: butlast_append)

lemma digits_inj: "digits m = digits n \<Longrightarrow> m = n"
proof (induction m arbitrary: n rule: digits.induct)
  case (1 m)
  have l: "digit_char (m mod 10) = digit_char (n mod 10)"
    using "1.prems" digits_last [of m] digits_last [of n] by simp
  then have r: "m mod 10 = n mod 10"
    by (intro digit_char_inj) simp_all
  have b: "(if m < 10 then [] else digits (m div 10)) = (if n < 10 then [] else digits (n div 10))"
    using "1.prems" digits_butlast [of m] digits_butlast [of n] by simp
  show ?case
  proof (cases "m < 10")
    case True
    with b digits_not_Nil [of "n div 10"] have "n < 10" by (cases "n < 10") simp_all
    with True r show ?thesis by simp
  next
    case False
    have n: "\<not> n < 10"
    proof
      assume "n < 10"
      with False b have "digits (m div 10) = []" by simp
      then show False by (simp add: digits_not_Nil)
    qed
    with False b have e: "digits (m div 10) = digits (n div 10)" by simp
    from "1.IH" [OF False e] have "m div 10 = n div 10" .
    with r have "m div 10 * 10 + m mod 10 = n div 10 * 10 + n mod 10" by simp
    then show ?thesis by (simp only: div_mult_mod_eq)
  qed
qed

lemma digits_hd_not_minus: "hd (digits n) \<noteq> CHR ''-''"
proof (induction n rule: digits.induct)
  case (1 n)
  show ?case
  proof (cases "n < 10")
    case True
    then show ?thesis by (subst digits.simps) (simp add: digit_char_not_minus)
  next
    case False
    then have "hd (digits n) = hd (digits (n div 10))"
      by (subst digits.simps) (simp add: digits_not_Nil)
    with "1.IH" [OF False] show ?thesis by simp
  qed
qed

lemma itoa_inj: "itoa i = itoa j \<Longrightarrow> i = j"
proof -
  assume e: "itoa i = itoa j"
  have neg: "\<And>a b. CHR ''-'' # digits a \<noteq> digits b"
    using digits_hd_not_minus by (metis list.sel(1))
  show ?thesis
  proof (cases "i < 0"; cases "j < 0")
    assume "i < 0" "j < 0"
    with e have "nat (- i) = nat (- j)" by (simp add: itoa_def digits_inj)
    with \<open>i < 0\<close> \<open>j < 0\<close> show ?thesis by simp
  next
    assume "i < 0" "\<not> j < 0"
    with e neg show ?thesis by (simp add: itoa_def)
  next
    assume "\<not> i < 0" "j < 0"
    with e neg [of "nat (- j)" "nat i"] show ?thesis by (simp add: itoa_def)
  next
    assume "\<not> i < 0" "\<not> j < 0"
    with e have "nat i = nat j" by (simp add: itoa_def digits_inj)
    with \<open>\<not> i < 0\<close> \<open>\<not> j < 0\<close> show ?thesis by simp
  qed
qed

lemma UnixNano_in_range: "- (2 ^ 63) \<le> t \<Longrightarrow> t < 2 ^ 63 \<Longrightarrow> UnixNano t = t"
  by (simp add: UnixNano_def sint_sbintrunc' signed_take_bit_int_eq_self)

lemma auth_params_state: "Values_Get (auth_params cfg state) ''state'' = state"
  by (simp add: auth_params_def Values_Get_def)


lemma new_state_inj:
  assumes "- (2 ^ 63) \<le> t1" "t1 < 2 ^ 63" "- (2 ^ 63) \<le> t2" "t2 < 2 ^ 63"
    and "new_state t1 = new_state t2"
  shows "t1 = t2"
proof -
  have "UnixNano t1 = UnixNano t2"
    using assms(5) unfolding new_state_def by (rule itoa_inj)
  then show ?thesis
    using assms(1-4) by (simp add: UnixNano_in_range)
qed

text \<open>
  C6, as the code has it. The state value of an auth invocation is the decimal text of the
  clock reading taken when \<^verbatim>\<open>doAuth\<close> starts, in nanoseconds since the Unix epoch: the
  URL handed to the browser carries it, and the callback handler compares against it. It
  is a function of that reading alone; readings that differ (within the range of a 64-bit
  count) give state values that differ.
\<close>

theorem state_is_clock_reading:
  "opened (snd (doAuth J L cfg sched w))
     = opened w @ [authURL @ ''?'' @ Encode L (auth_params cfg (new_state (clock w (ticks w))))]
   \<and> Values_Get (auth_params cfg (new_state (clock w (ticks w)))) ''state''
     = itoa (UnixNano (clock w (ticks w)))
   \<and> answered (snd (doAuth J L cfg sched w))
     = handled (auth_session (itoa (UnixNano (clock w (ticks w)))) sched)
   \<and> (- (2 ^ 63) \<le> t1 \<and> t1 < 2 ^ 63 \<and> - (2 ^ 63) \<le> t2 \<and> t2 < 2 ^ 63
        \<and> new_state t1 = new_state t2 \<longrightarrow> t1 = t2)"
proof (intro conjI impI)
  show "opened (snd (doAuth J L cfg sched w))
     = opened w @ [authURL @ ''?'' @ Encode L (auth_params cfg (new_state (clock w (ticks w))))]"
    by (simp add: doAuth_frame)
  show "Values_Get (auth_params cfg (new_state (clock w (ticks w)))) ''state''
     = itoa (UnixNano (clock w (ticks w)))"
    by (simp add: auth_params_state new_state_def)
  show "answered (snd (doAuth J L cfg sched w))
     = handled (auth_session (itoa (UnixNano (clock w (ticks w)))) sched)"
    using doAuth_frame [of J L cfg sched w] by (simp add: new_state_def)
next
  assume "- (2 ^ 63) \<le> t1 \<and> t1 < 2 ^ 63 \<and> - (2 ^ 63) \<le> t2 \<and> t2 < 2 ^ 63
        \<and> new_state t1 = new_state t2"
  then show "t1 = t2" using new_state_inj by blast
qed

theorem state_is_clock_reading_witness:
  "- (2 ^ 63) \<le> (1768046400000000000 :: int) \<and> (1768046400000000001 :: int) < 2 ^ 63
   \<and> new_state 1768046400000000000 = ''1768046400000000000''
   \<and> new_state 1768046400000000001 = ''1768046400000000001''
   \<and> new_state 1768046400000000000 \<noteq> new_state 1768046400000000001"
proof -
  have a: "new_state 1768046400000000000 = ''1768046400000000000''"
    and b: "new_state 1768046400000000001 = ''1768046400000000001''"
    by (simp_all add: new_state_def UnixNano_def itoa_def digits.simps digit_char_def)
  have "new_state 1768046400000000000 \<noteq> new_state 1768046400000000001"
    using state_is_clock_reading [where ?t1.0 = 1768046400000000000 and ?t2.0 = 1768046400000000001]
    by auto
  with a b show ?thesis by simp
qed

text \<open>
  C6 as stated fails: the state value is determined by the wall-clock time. Two
  invocations in different worlds with the same clock reading generate the same value, the
  digits of that reading.
\<close>

theorem state_predictable_counterexample:
  "clock ex_world (ticks ex_world) = 1768046400000000000
   \<and> clock ex_world_unauth (ticks ex_world_unauth) = 1768046400000000000
   \<and> token_file ex_world \<noteq> token_file ex_world_unauth
   \<and> opened (snd (doAuth ex_codec ex_library ex_cfg [] ex_world))
       = [authURL @ ''?client_id=my-id&redirect_uri=http%3A%2F%2Flocalhost%3A8081%2Fcallback''
            @ ''&response_type=code''
            @ ''&scope=daily+heartrate+personal+workout+spo2+stress+heart_health''
            @ ''&state=1768046400000000000'']
   \<and> opened (snd (doAuth ex_codec ex_library ex_cfg [] ex_world_unauth))
       = opened (snd (doAuth ex_codec ex_library ex_cfg [] ex_world))"
proof -
  have c: "clock ex_world (ticks ex_world) = 1768046400000000000"
    "clock ex_world_unauth (ticks ex_world_unauth) = 1768046400000000000"
    "opened ex_world = []" "opened ex_world_unauth = []"
    "token_file ex_world \<noteq> token_file ex_world_unauth"
    by (simp_all add: ex_world_def ex_world_unauth_def)
  have n: "new_state 1768046400000000000 = ''1768046400000000000''"
    by (simp add: new_state_def UnixNano_def itoa_def digits.simps digit_char_def)
  show ?thesis
    using c by (simp add: doAuth_frame n auth_params_state ex_library_def)
qed

section \<open>The heartrate command\<close>

lemma hr_loop_max_0:
  "xs \<noteq> [] \<Longrightarrow> sint (hr_max (hr_loop xs hr_init)) = max 0 (Max (set (map (\<lambda>r. sint (BPM r)) xs)))"
  by (simp add: hr_loop_max hr_init_def del: set_map)

text \<open>
  Claim C10.  For every non-empty list of heart-rate readings that the API returns, the
  \<^verbatim>\<open>heartrate\<close> command returns normally and prints, after its two header lines, the
  number of readings, the minimum as \<open>min 999\<close> of the smallest BPM (the loop starts from
  the value 999, so 999 is printed when every reading is above it), the maximum, and the
  average as the truncated integer quotient of the sum of the BPM values by the number of
  readings (the exact quotient whenever the sum fits a 64-bit integer).
\<close>

theorem heartrate_command_reports:
  assumes "loadConfig J w = Inr cfg"
    and "apiGet J cfg ''/heartrate'' (day_params date) w = (Inr body, w1)"
    and "decode_heartrate L body = xs" and "xs \<noteq> []" and "length xs < 2 ^ 63"
  shows "main J L sched [prog, ''heartrate'', date] w =
           (Returned,
            w1\<lparr>stdout := stdout w1 @
              [[CHR 0xE2, CHR 0x9D, CHR 0xA4, CHR 0xEF, CHR 0xB8, CHR 0x8F] @ ''  Heart Rate - '' @ date @ ''\<newline>'',
               rule40,
               ''Readings:  '' @ itoa (int (length xs)) @ ''\<newline>'',
               ''Min:       '' @ itoa (min 999 (Min (set (map (\<lambda>r. sint (BPM r)) xs)))) @ '' bpm\<newline>'',
               ''Max:       '' @ itoa (max 0 (Max (set (map (\<lambda>r. sint (BPM r)) xs)))) @ '' bpm\<newline>'',
               ''Average:   '' @ itoa (sint (go_div (sum_list (map BPM xs)) (go_len xs))) @ '' bpm\<newline>'']\<rparr>)
       \<and> (- (2 ^ 63) \<le> sum_list (map (\<lambda>r. sint (BPM r)) xs)
            \<and> sum_list (map (\<lambda>r. sint (BPM r)) xs) < 2 ^ 63
          \<longrightarrow> sint (go_div (sum_list (map BPM xs)) (go_len xs))
                = sum_list (map (\<lambda>r. sint (BPM r)) xs) sdiv int (length xs))"
proof -
  note l = hr_loop_min_avg [OF assms(4) assms(5)]
  have mn: "sint (hr_min (hr_loop xs hr_init)) = min 999 (Min (set (map (\<lambda>r. sint (BPM r)) xs)))"
    and av: "hr_avg xs = go_div (sum_list (map BPM xs)) (go_len xs)"
    and ex: "- (2 ^ 63) \<le> sum_list (map (\<lambda>r. sint (BPM r)) xs)
            \<and> sum_list (map (\<lambda>r. sint (BPM r)) xs) < 2 ^ 63
          \<longrightarrow> sint (hr_avg xs) = sum_list (map (\<lambda>r. sint (BPM r)) xs) sdiv int (length xs)"
    using l by blast+
  have mx: "sint (hr_max (hr_loop xs hr_init)) = max 0 (Max (set (map (\<lambda>r. sint (BPM r)) xs)))"
    using assms(4) by (rule hr_loop_max_0)
  have ln: "sint (go_len xs) = int (length xs)" using assms(5) by (rule sint_go_len)
  have rep: "heartrate_report date xs =
              [[CHR 0xE2, CHR 0x9D, CHR 0xA4, CHR 0xEF, CHR 0xB8, CHR 0x8F] @ ''  Heart Rate - '' @ date @ ''\<newline>'',
               rule40,
               ''Readings:  '' @ itoa (int (length xs)) @ ''\<newline>'',
               ''Min:       '' @ itoa (min 999 (Min (set (map (\<lambda>r. sint (BPM r)) xs)))) @ '' bpm\<newline>'',
               ''Max:       '' @ itoa (max 0 (Max (set (map (\<lambda>r. sint (BPM r)) xs)))) @ '' bpm\<newline>'',
               ''Average:   '' @ itoa (sint (go_div (sum_list (map BPM xs)) (go_len xs))) @ '' bpm\<newline>'']"
    unfolding heartrate_report_def mn mx ln av by simp
  have "main J L sched [prog, ''heartrate'', date] w = fetchHeartRate J L cfg date w"
    using assms(1) by (rule main_dated)
  also have "\<dots> = (Returned, print_lines (heartrate_report date xs) w1)"
    using assms(2,3,4) by (simp add: fetchHeartRate_def Let_def)
  finally have m: "main J L sched [prog, ''heartrate'', date] w
      = (Returned, print_lines (heartrate_report date xs) w1)" .
  show ?thesis
    using ex by (simp add: m rep print_lines_def av del: set_map)
qed

lemma ex_heartrate_apiGet:
  "apiGet ex_codec ex_cfg ep params ex_world_heartrate
     = (Inr ex_heartrate_body,
        ex_world_heartrate\<lparr>ticks := 1, sent := [Get (apiBase @ ep) params ''Bearer AT1'']\<rparr>)"
  by (simp add: apiGet_def getValidToken_def loadToken_def time_Now_def http_send_def
        refresh_due_iff ex_world_heartrate_def ex_world_at_def ex_world_def ex_codec_def ex_token_def)

lemma ex_heartrate_config: "loadConfig ex_codec ex_world_heartrate = Inr ex_cfg"
  by (simp add: loadConfig_def ex_world_heartrate_def ex_world_at_def ex_world_def ex_codec_def)

theorem heartrate_command_reports_witness:
  "loadConfig ex_codec ex_world_heartrate = Inr ex_cfg
   \<and> decode_heartrate ex_library ex_heartrate_body = ex_readings
   \<and> ex_readings \<noteq> [] \<and> length ex_readings < 2 ^ 63
   \<and> fst (main ex_codec ex_library [] [''oura'', ''heartrate'', ''2026-01-10''] ex_world_heartrate)
       = Returned
   \<and> stdout (snd (main ex_codec ex_library [] [''oura'', ''heartrate'', ''2026-01-10'']
                     ex_world_heartrate))
       = [[CHR 0xE2, CHR 0x9D, CHR 0xA4, CHR 0xEF, CHR 0xB8, CHR 0x8F] @ ''  Heart Rate - 2026-01-10\<newline>'',
          rule40,
          ''Readings:  2\<newline>'',
          ''Min:       999 bpm\<newline>'',
          ''Max:       1201 bpm\<newline>'',
          ''Average:   1100 bpm\<newline>'']"
proof -
  have d: "decode_heartrate ex_library ex_heartrate_body = ex_readings"
    by (simp add: ex_library_def)
  have n: "ex_readings \<noteq> []" "length ex_readings < 2 ^ 63"
    by (simp_all add: ex_readings_def)
  have s0: "stdout ex_world_heartrate = []"
    by (simp add: ex_world_heartrate_def ex_world_at_def ex_world_def)
  note t = heartrate_command_reports [OF ex_heartrate_config ex_heartrate_apiGet d n,
      where date = "''2026-01-10''" and sched = "[]" and prog = "''oura''"]
  have v: "itoa (int (length ex_readings)) = ''2''"
    "itoa (min 999 (Min (set (map (\<lambda>r. sint (BPM r)) ex_readings)))) = ''999''"
    "itoa (max 0 (Max (set (map (\<lambda>r. sint (BPM r)) ex_readings)))) = ''1201''"
    "itoa (sint (go_div (sum_list (map BPM ex_readings)) (go_len ex_readings))) = ''1100''"
    by (simp_all add: ex_readings_def itoa_def digits.simps digit_char_def go_div_def go_len_def)
  from t have "main ex_codec ex_library [] [''oura'', ''heartrate'', ''2026-01-10'']
        ex_world_heartrate
      = (Returned,
         ex_world_heartrate\<lparr>ticks := 1,
           sent := [Get (apiBase @ ''/heartrate'') (day_params ''2026-01-10'') ''Bearer AT1''],
           stdout := [[CHR 0xE2, CHR 0x9D, CHR 0xA4, CHR 0xEF, CHR 0xB8, CHR 0x8F]
                        @ ''  Heart Rate - 2026-01-10\<newline>'',
                      rule40,
                      ''Readings:  2\<newline>'',
                      ''Min:       999 bpm\<newline>'',
                      ''Max:       1201 bpm\<newline>'',
                      ''Average:   1100 bpm\<newline>'']\<rparr>)"
    unfolding v by (simp add: s0 del: set_map)
  then show ?thesis
    using d n by (simp add: ex_heartrate_config)
qed

end
